theory Spec2Isabelle
  imports Main
begin

section \<open>JavaScript values and exceptions\<close>

text \<open>
  The parameters \<open>productData\<close> and \<open>details\<close> of the three public operations of
  \<open>BlockchainIntegration.ts\<close> have the TypeScript type \<open>any\<close>: they are arbitrary
  JavaScript values. Numbers are integers here, with \<open>JNaN\<close> standing for the one falsy
  number that is not zero. An object is the list of its own properties.
\<close>

datatype jsval =
    JUndefined
  | JNull
  | JBool bool
  | JNum int
  | JNaN
  | JStr string
  | JArr "jsval list"
  | JObj "(string \<times> jsval) list"

text \<open>What \<open>if (v)\<close> and \<open>v || w\<close> test.\<close>

fun truthy :: "jsval \<Rightarrow> bool" where
  "truthy JUndefined = False"
| "truthy JNull = False"
| "truthy (JBool b) = b"
| "truthy (JNum n) = (n \<noteq> 0)"
| "truthy JNaN = False"
| "truthy (JStr s) = (s \<noteq> [])"
| "truthy (JArr xs) = True"
| "truthy (JObj kvs) = True"

text \<open>A thrown value: the TypeError the runtime raises itself, or what a collaborator threw.\<close>

datatype exn = TypeError string | Thrown jsval

text \<open>
  The property read \<open>v.k\<close>: a TypeError on \<open>null\<close> and \<open>undefined\<close>, the property's
  value on an object that has it, \<open>undefined\<close> everywhere else.
\<close>

fun member :: "jsval \<Rightarrow> string \<Rightarrow> exn + jsval" where
  "member JUndefined k =
     Inl (TypeError (''Cannot read properties of undefined (reading '' @ [CHR 0x27] @ k @ [CHR 0x27] @ '')''))"
| "member JNull k =
     Inl (TypeError (''Cannot read properties of null (reading '' @ [CHR 0x27] @ k @ [CHR 0x27] @ '')''))"
| "member (JObj kvs) k = Inr (case map_of kvs k of None \<Rightarrow> JUndefined | Some v \<Rightarrow> v)"
| "member v k = Inr JUndefined"

text \<open>The expression \<open>a || b\<close>, with \<open>b\<close> already a value (here a string concatenation).\<close>

definition js_or :: "jsval \<Rightarrow> jsval \<Rightarrow> jsval" where
  "js_or a b = (if truthy a then a else b)"

section \<open>The data of the integration layer\<close>

text \<open>The object literal given to \<open>new Transaction({from, to, data})\<close>.\<close>

record tx_params =
  tx_from :: jsval
  tx_to :: jsval
  tx_data :: jsval

text \<open>
  Modelled from the spec: the result type of the History Store's three write operations,
  \<open>{success, transactionId?}\<close> (section 6); \<open>TransactionHistory.ts\<close> is not among the
  sources.
\<close>

record history_result =
  hr_success :: bool
  hr_transactionId :: "string option"

text \<open>
  The declared result type of the three public operations,
  \<open>{ success: boolean; transactionHash?: string; blockHash?: string }\<close>.
\<close>

record op_result =
  success :: bool
  transactionHash :: "string option"
  blockHash :: "string option"

section \<open>Collaborators, the world and the trace\<close>

text \<open>
  \<open>getKeyPair\<close>, the class \<open>Transaction\<close>, \<open>TransactionHistoryService\<close> and the
  registered ledger handler are imported by \<open>BlockchainIntegration.ts\<close> and are parameters
  here. Each one may read and change the world \<open>'w\<close> (the ledger, the history database,
  the fields of the objects it handed out) and either returns a value (\<open>Inr\<close>) or throws
  (\<open>Inl\<close>); a key pair \<open>'kp\<close> and a transaction \<open>'tx\<close> are references to such objects.
\<close>

type_synonym ('w, 'a) collaborator = "'w \<Rightarrow> (exn + 'a) \<times> 'w"

record ('w, 'kp, 'tx, 'role) env =
  getKeyPair :: "string \<Rightarrow> ('w, 'kp) collaborator"
  getPublic :: "'kp \<Rightarrow> ('w, string) collaborator"
  newTransaction :: "tx_params \<Rightarrow> ('w, 'tx) collaborator"
  sign :: "'tx \<Rightarrow> 'kp \<Rightarrow> ('w, unit) collaborator"
  getHash :: "'tx \<Rightarrow> ('w, string) collaborator"
  history_recordProductCreation ::
    "string \<Rightarrow> string \<Rightarrow> jsval \<Rightarrow> ('w, history_result) collaborator"
  history_recordProductTransfer ::
    "string \<Rightarrow> string \<Rightarrow> 'role \<Rightarrow> string \<Rightarrow> 'role \<Rightarrow> jsval \<Rightarrow> ('w, history_result) collaborator"
  history_recordProductVerification ::
    "string \<Rightarrow> string \<Rightarrow> 'role \<Rightarrow> bool \<Rightarrow> jsval \<Rightarrow> ('w, history_result) collaborator"
  history_getTransaction :: "string \<Rightarrow> ('w, jsval) collaborator"

text \<open>
  The trace is the spy on the layer: one event for every call the layer makes to a
  collaborator, with the call's arguments and its outcome, and one for every line it
  writes to the console, in the order of execution.
\<close>

datatype ('kp, 'tx, 'role) event =
    GetKeyPair string "exn + 'kp"
  | GetPublic 'kp "exn + string"
  | NewTransaction tx_params "exn + 'tx"
  | Sign 'tx 'kp "exn + unit"
  | Handler 'tx "exn + bool"
  | HistoryCreation string string jsval "exn + history_result"
  | HistoryTransfer string string 'role string 'role jsval "exn + history_result"
  | HistoryVerification string string 'role bool jsval "exn + history_result"
  | GetTransaction string "exn + jsval"
  | GetHash 'tx "exn + string"
  | ConsoleLog string
  | ConsoleError string "exn option"

text \<open>A computation of the layer: from the world and the trace so far to an outcome.\<close>

type_synonym ('s, 'a) prog = "'s \<Rightarrow> (exn + 'a) \<times> 's"

definition ret :: "'a \<Rightarrow> ('s, 'a) prog" where
  "ret x = (\<lambda>s. (Inr x, s))"

definition bind :: "('s, 'a) prog \<Rightarrow> ('a \<Rightarrow> ('s, 'b) prog) \<Rightarrow> ('s, 'b) prog" where
  "bind m f = (\<lambda>s. case m s of (Inl e, s') \<Rightarrow> (Inl e, s') | (Inr x, s') \<Rightarrow> f x s')"

text \<open>\<open>try { m } catch (error) { h error }\<close>\<close>

definition try_catch :: "('s, 'a) prog \<Rightarrow> (exn \<Rightarrow> ('s, 'a) prog) \<Rightarrow> ('s, 'a) prog" where
  "try_catch m h = (\<lambda>s. case m s of (Inl e, s') \<Rightarrow> h e s' | (Inr x, s') \<Rightarrow> (Inr x, s'))"

text \<open>An expression that evaluates to a value or throws, with no other effect.\<close>

definition lift :: "exn + 'a \<Rightarrow> ('s, 'a) prog" where
  "lift r = (\<lambda>s. (r, s))"

text \<open>A call to a collaborator (awaited where the source awaits), recorded in the trace.\<close>

definition perform ::
  "(exn + 'a \<Rightarrow> 'ev) \<Rightarrow> ('w, 'a) collaborator \<Rightarrow> ('w \<times> 'ev list, 'a) prog" where
  "perform ev f = (\<lambda>(w, tr). case f w of (r, w') \<Rightarrow> (r, (w', tr @ [ev r])))"

definition console_log :: "string \<Rightarrow> ('w \<times> ('kp, 'tx, 'role) event list, unit) prog" where
  "console_log msg = (\<lambda>(w, tr). (Inr (), (w, tr @ [ConsoleLog msg])))"

definition console_error ::
  "string \<Rightarrow> exn option \<Rightarrow> ('w \<times> ('kp, 'tx, 'role) event list, unit) prog" where
  "console_error msg err = (\<lambda>(w, tr). (Inr (), (w, tr @ [ConsoleError msg err])))"

section \<open>The class BlockchainIntegration\<close>

text \<open>
  The instance holds the registered ledger handler, or \<open>null\<close>. An operation works on the
  instance as it is when the operation is called.
\<close>

record ('w, 'tx) BlockchainIntegration =
  transactionHandler :: "('tx \<Rightarrow> ('w, bool) collaborator) option"

text \<open>The private constructor: the field starts as \<open>null\<close>.\<close>

definition new_BlockchainIntegration :: "('w, 'tx) BlockchainIntegration" where
  "new_BlockchainIntegration = \<lparr>transactionHandler = None\<rparr>"

definition setTransactionHandler ::
  "('w, 'tx) BlockchainIntegration \<Rightarrow> ('tx \<Rightarrow> ('w, bool) collaborator) \<Rightarrow> ('w, 'tx) BlockchainIntegration" where
  "setTransactionHandler this handler = this\<lparr>transactionHandler := Some handler\<rparr>"

definition updateTransactionWithBlockchainInfo ::
  "('w, 'kp, 'tx, 'role) env \<Rightarrow> string \<Rightarrow> string \<Rightarrow> string \<Rightarrow>
     ('w \<times> ('kp, 'tx, 'role) event list, unit) prog" where
  "updateTransactionWithBlockchainInfo env transactionId blockHash' transactionHash' =
     try_catch
       (bind (perform (GetTransaction transactionId) (history_getTransaction env transactionId))
          (\<lambda>txRecord.
             if truthy txRecord then
               bind (console_log (''Updating transaction '' @ transactionId @ '' with blockchain data''))
                 (\<lambda>_. console_log
                    (''Block hash: '' @ blockHash' @ '', Transaction hash: '' @ transactionHash'))
             else
               console_error (''Transaction '' @ transactionId @ '' not found for blockchain update'') None))
       (\<lambda>error.
          console_error (''Error updating blockchain info for transaction '' @ transactionId @ '':'')
            (Some error))"

text \<open>
  The test \<open>historyResult.success && historyResult.transactionId\<close>: an absent and an empty
  identifier are both falsy.
\<close>

definition history_ok :: "history_result \<Rightarrow> bool" where
  "history_ok historyResult =
     (hr_success historyResult \<and>
      (case hr_transactionId historyResult of None \<Rightarrow> False | Some i \<Rightarrow> i \<noteq> []))"

definition the_id :: "history_result \<Rightarrow> string" where
  "the_id historyResult = (case hr_transactionId historyResult of None \<Rightarrow> [] | Some i \<Rightarrow> i)"

definition failure :: op_result where
  "failure = \<lparr>success = False, transactionHash = None, blockHash = None\<rparr>"

text \<open>
  In each operation the nested \<open>if\<close>s of the \<open>try\<close> block either return from inside
  (\<open>Some\<close> result) or fall through (\<open>None\<close>) to the \<open>return { success: false }\<close> that
  ends the block.
\<close>

definition recordProductCreation ::
  "('w, 'kp, 'tx, 'role) env \<Rightarrow> ('w, 'tx) BlockchainIntegration \<Rightarrow>
     string \<Rightarrow> string \<Rightarrow> string \<Rightarrow> jsval \<Rightarrow>
     ('w \<times> ('kp, 'tx, 'role) event list, op_result) prog" where
  "recordProductCreation env this productId fromUserId privateKey productData =
     try_catch
       (bind (perform (GetKeyPair privateKey) (getKeyPair env privateKey)) (\<lambda>keyPair.
        bind (perform (GetPublic keyPair) (getPublic env keyPair)) (\<lambda>fromPublicKey.
        bind (perform
                (NewTransaction
                   \<lparr>tx_from = JStr fromPublicKey, tx_to = JStr fromPublicKey,
                    tx_data = JObj [(''type'', JStr ''PRODUCT_CREATE''),
                                    (''productId'', JStr productId),
                                    (''details'', productData)]\<rparr>)
                (newTransaction env
                   \<lparr>tx_from = JStr fromPublicKey, tx_to = JStr fromPublicKey,
                    tx_data = JObj [(''type'', JStr ''PRODUCT_CREATE''),
                                    (''productId'', JStr productId),
                                    (''details'', productData)]\<rparr>)) (\<lambda>transaction.
        bind (perform (Sign transaction keyPair) (sign env transaction keyPair)) (\<lambda>_.
        bind
          (case transactionHandler this of
             None \<Rightarrow> ret None
           | Some handler \<Rightarrow>
               bind (perform (Handler transaction) (handler transaction)) (\<lambda>isValid.
                 if isValid then
                   bind (perform (HistoryCreation productId fromUserId productData)
                           (history_recordProductCreation env productId fromUserId productData))
                     (\<lambda>historyResult.
                        if history_ok historyResult then
                          bind (perform (GetHash transaction) (getHash env transaction)) (\<lambda>h.
                          bind (updateTransactionWithBlockchainInfo env (the_id historyResult)
                                  ''pending'' h) (\<lambda>_.
                          bind (perform (GetHash transaction) (getHash env transaction)) (\<lambda>h'.
                          ret (Some \<lparr>success = True, transactionHash = Some h',
                                     blockHash = None\<rparr>))))
                        else ret None)
                 else ret None))
          (\<lambda>returned. case returned of
             Some r \<Rightarrow> ret r
           | None \<Rightarrow> ret failure))))))
       (\<lambda>error.
          bind (console_error ''Error recording product creation to blockchain:'' (Some error))
            (\<lambda>_. ret failure))"

definition recordProductTransfer ::
  "('w, 'kp, 'tx, 'role) env \<Rightarrow> ('w, 'tx) BlockchainIntegration \<Rightarrow>
     string \<Rightarrow> string \<Rightarrow> string \<Rightarrow> 'role \<Rightarrow> 'role \<Rightarrow> string \<Rightarrow> jsval \<Rightarrow>
     ('w \<times> ('kp, 'tx, 'role) event list, op_result) prog" where
  "recordProductTransfer env this productId fromUserId toUserId fromRole toRole privateKey details =
     try_catch
       (bind (perform (GetKeyPair privateKey) (getKeyPair env privateKey)) (\<lambda>keyPair.
        bind (perform (GetPublic keyPair) (getPublic env keyPair)) (\<lambda>fromPublicKey.
        bind (lift (member details ''toPublicKey'')) (\<lambda>details_toPublicKey.
        bind (ret (js_or details_toPublicKey (JStr (''default_public_key_for_'' @ toUserId))))
          (\<lambda>toPublicKey.
        bind (perform
                (NewTransaction
                   \<lparr>tx_from = JStr fromPublicKey, tx_to = toPublicKey,
                    tx_data = JObj [(''type'', JStr ''PRODUCT_TRANSFER''),
                                    (''productId'', JStr productId),
                                    (''fromUserId'', JStr fromUserId),
                                    (''toUserId'', JStr toUserId),
                                    (''details'', details)]\<rparr>)
                (newTransaction env
                   \<lparr>tx_from = JStr fromPublicKey, tx_to = toPublicKey,
                    tx_data = JObj [(''type'', JStr ''PRODUCT_TRANSFER''),
                                    (''productId'', JStr productId),
                                    (''fromUserId'', JStr fromUserId),
                                    (''toUserId'', JStr toUserId),
                                    (''details'', details)]\<rparr>)) (\<lambda>transaction.
        bind (perform (Sign transaction keyPair) (sign env transaction keyPair)) (\<lambda>_.
        bind
          (case transactionHandler this of
             None \<Rightarrow> ret None
           | Some handler \<Rightarrow>
               bind (perform (Handler transaction) (handler transaction)) (\<lambda>isValid.
                 if isValid then
                   bind (perform
                           (HistoryTransfer productId fromUserId fromRole toUserId toRole details)
                           (history_recordProductTransfer env productId fromUserId fromRole
                              toUserId toRole details))
                     (\<lambda>historyResult.
                        if history_ok historyResult then
                          bind (perform (GetHash transaction) (getHash env transaction)) (\<lambda>h.
                          bind (updateTransactionWithBlockchainInfo env (the_id historyResult)
                                  ''pending'' h) (\<lambda>_.
                          bind (perform (GetHash transaction) (getHash env transaction)) (\<lambda>h'.
                          ret (Some \<lparr>success = True, transactionHash = Some h',
                                     blockHash = None\<rparr>))))
                        else ret None)
                 else ret None))
          (\<lambda>returned. case returned of
             Some r \<Rightarrow> ret r
           | None \<Rightarrow> ret failure))))))))
       (\<lambda>error.
          bind (console_error ''Error recording product transfer to blockchain:'' (Some error))
            (\<lambda>_. ret failure))"

definition recordProductVerification ::
  "('w, 'kp, 'tx, 'role) env \<Rightarrow> ('w, 'tx) BlockchainIntegration \<Rightarrow>
     string \<Rightarrow> string \<Rightarrow> 'role \<Rightarrow> string \<Rightarrow> bool \<Rightarrow> jsval \<Rightarrow>
     ('w \<times> ('kp, 'tx, 'role) event list, op_result) prog" where
  "recordProductVerification env this productId verifierId verifierRole privateKey passed details =
     try_catch
       (bind (perform (GetKeyPair privateKey) (getKeyPair env privateKey)) (\<lambda>keyPair.
        bind (perform (GetPublic keyPair) (getPublic env keyPair)) (\<lambda>fromPublicKey.
        bind (perform
                (NewTransaction
                   \<lparr>tx_from = JStr fromPublicKey, tx_to = JStr fromPublicKey,
                    tx_data = JObj [(''type'', JStr ''PRODUCT_VERIFICATION''),
                                    (''productId'', JStr productId),
                                    (''verifierId'', JStr verifierId),
                                    (''verificationPassed'', JBool passed),
                                    (''details'', details)]\<rparr>)
                (newTransaction env
                   \<lparr>tx_from = JStr fromPublicKey, tx_to = JStr fromPublicKey,
                    tx_data = JObj [(''type'', JStr ''PRODUCT_VERIFICATION''),
                                    (''productId'', JStr productId),
                                    (''verifierId'', JStr verifierId),
                                    (''verificationPassed'', JBool passed),
                                    (''details'', details)]\<rparr>)) (\<lambda>transaction.
        bind (perform (Sign transaction keyPair) (sign env transaction keyPair)) (\<lambda>_.
        bind
          (case transactionHandler this of
             None \<Rightarrow> ret None
           | Some handler \<Rightarrow>
               bind (perform (Handler transaction) (handler transaction)) (\<lambda>isValid.
                 if isValid then
                   bind (perform
                           (HistoryVerification productId verifierId verifierRole passed details)
                           (history_recordProductVerification env productId verifierId
                              verifierRole passed details))
                     (\<lambda>historyResult.
                        if history_ok historyResult then
                          bind (perform (GetHash transaction) (getHash env transaction)) (\<lambda>h.
                          bind (updateTransactionWithBlockchainInfo env (the_id historyResult)
                                  ''pending'' h) (\<lambda>_.
                          bind (perform (GetHash transaction) (getHash env transaction)) (\<lambda>h'.
                          ret (Some \<lparr>success = True, transactionHash = Some h',
                                     blockHash = None\<rparr>))))
                        else ret None)
                 else ret None))
          (\<lambda>returned. case returned of
             Some r \<Rightarrow> ret r
           | None \<Rightarrow> ret failure))))))
       (\<lambda>error.
          bind (console_error ''Error recording product verification to blockchain:'' (Some error))
            (\<lambda>_. ret failure))"

section \<open>Calls to the public operations\<close>

text \<open>One call to one of the three public operations, with its arguments in source order.\<close>

datatype 'role request =
    Creation string string string jsval
  | Transfer string string string 'role 'role string jsval
  | Verification string string 'role string bool jsval

definition invoke ::
  "('w, 'kp, 'tx, 'role) env \<Rightarrow> ('w, 'tx) BlockchainIntegration \<Rightarrow> 'role request \<Rightarrow>
     ('w \<times> ('kp, 'tx, 'role) event list, op_result) prog" where
  "invoke env this req =
     (case req of
        Creation productId fromUserId privateKey productData \<Rightarrow>
          recordProductCreation env this productId fromUserId privateKey productData
      | Transfer productId fromUserId toUserId fromRole toRole privateKey details \<Rightarrow>
          recordProductTransfer env this productId fromUserId toUserId fromRole toRole
            privateKey details
      | Verification productId verifierId verifierRole privateKey passed details \<Rightarrow>
          recordProductVerification env this productId verifierId verifierRole privateKey
            passed details)"

text \<open>
  A call runs from a world \<open>w\<close> with an empty trace: what it returns or throws, the events
  of the call, and the world it leaves.
\<close>

definition outcome ::
  "('w, 'kp, 'tx, 'role) env \<Rightarrow> ('w, 'tx) BlockchainIntegration \<Rightarrow> 'role request \<Rightarrow> 'w \<Rightarrow>
     exn + op_result" where
  "outcome env this req w = fst (invoke env this req (w, []))"

definition events ::
  "('w, 'kp, 'tx, 'role) env \<Rightarrow> ('w, 'tx) BlockchainIntegration \<Rightarrow> 'role request \<Rightarrow> 'w \<Rightarrow>
     ('kp, 'tx, 'role) event list" where
  "events env this req w = snd (snd (invoke env this req (w, [])))"

definition world_after ::
  "('w, 'kp, 'tx, 'role) env \<Rightarrow> ('w, 'tx) BlockchainIntegration \<Rightarrow> 'role request \<Rightarrow> 'w \<Rightarrow> 'w" where
  "world_after env this req w = fst (snd (invoke env this req (w, [])))"

text \<open>The events that are calls of the ledger handler, and those that are History Store writes.\<close>

fun is_handler_call :: "('kp, 'tx, 'role) event \<Rightarrow> bool" where
  "is_handler_call (Handler t r) = True"
| "is_handler_call e = False"

fun is_history_write :: "('kp, 'tx, 'role) event \<Rightarrow> bool" where
  "is_history_write (HistoryCreation p u d r) = True"
| "is_history_write (HistoryTransfer p u fr t tr d r) = True"
| "is_history_write (HistoryVerification p v vr ps d r) = True"
| "is_history_write e = False"

fun is_history_call :: "('kp, 'tx, 'role) event \<Rightarrow> bool" where
  "is_history_call (GetTransaction i r) = True"
| "is_history_call e = is_history_write e"

text \<open>The one call made inside \<open>updateTransactionWithBlockchainInfo\<close>.\<close>

fun in_reconciliation :: "('kp, 'tx, 'role) event \<Rightarrow> bool" where
  "in_reconciliation (GetTransaction i r) = True"
| "in_reconciliation e = False"

fun is_transfer :: "'role request \<Rightarrow> bool" where
  "is_transfer (Transfer p u t fr tr k d) = True"
| "is_transfer r = False"

text \<open>The lines written to the console.\<close>

fun is_console :: "('kp, 'tx, 'role) event \<Rightarrow> bool" where
  "is_console (ConsoleLog m) = True"
| "is_console (ConsoleError m x) = True"
| "is_console e = False"

text \<open>The \<open>privateKey\<close> argument of a call.\<close>

fun privateKey_of :: "'role request \<Rightarrow> string" where
  "privateKey_of (Creation p u k d) = k"
| "privateKey_of (Transfer p u t fr tr k d) = k"
| "privateKey_of (Verification p v vr k ps d) = k"

text \<open>What a History Store write returned or threw; \<open>None\<close> for every other event.\<close>

fun write_outcome :: "('kp, 'tx, 'role) event \<Rightarrow> (exn + history_result) option" where
  "write_outcome (HistoryCreation p u d r) = Some r"
| "write_outcome (HistoryTransfer p u fr t tr d r) = Some r"
| "write_outcome (HistoryVerification p v vr ps d r) = Some r"
| "write_outcome e = None"

text \<open>The exception a collaborator call threw, if it threw.\<close>

definition thrown_of :: "exn + 'a \<Rightarrow> exn option" where
  "thrown_of r = (case r of Inl x \<Rightarrow> Some x | Inr v \<Rightarrow> None)"

fun thrown :: "('kp, 'tx, 'role) event \<Rightarrow> exn option" where
  "thrown (GetKeyPair k r) = thrown_of r"
| "thrown (GetPublic kp r) = thrown_of r"
| "thrown (NewTransaction p r) = thrown_of r"
| "thrown (Sign t kp r) = thrown_of r"
| "thrown (Handler t r) = thrown_of r"
| "thrown (HistoryCreation p u d r) = thrown_of r"
| "thrown (HistoryTransfer p u fr t tr d r) = thrown_of r"
| "thrown (HistoryVerification p v vr ps d r) = thrown_of r"
| "thrown (GetTransaction i r) = thrown_of r"
| "thrown (GetHash t r) = thrown_of r"
| "thrown (ConsoleLog m) = None"
| "thrown (ConsoleError m x) = None"

text \<open>
  The diagnostic that reports an exception thrown by a call: the one of
  \<open>updateTransactionWithBlockchainInfo\<close> for \<open>getTransaction\<close>, the one of the
  operation's own \<open>catch\<close> for every other call.
\<close>

fun catch_message :: "'role request \<Rightarrow> string" where
  "catch_message (Creation p u k d) = ''Error recording product creation to blockchain:''"
| "catch_message (Transfer p u t fr tr k d) = ''Error recording product transfer to blockchain:''"
| "catch_message (Verification p v vr k ps d) =
     ''Error recording product verification to blockchain:''"

fun diagnostic :: "'role request \<Rightarrow> ('kp, 'tx, 'role) event \<Rightarrow> string" where
  "diagnostic req (GetTransaction i r) =
     ''Error updating blockchain info for transaction '' @ i @ '':''"
| "diagnostic req e = catch_message req"

section \<open>A ledger and a History Store to run the layer on\<close>

text \<open>
  A key pair is its private key, a transaction the object literal it was built from, a
  role its name. The world is the History Store: the records written so far, by
  identifier. A write stores what it is given and answers with the identifier
  \<open>tx-<productId>\<close>.
\<close>

type_synonym store = "(string \<times> jsval) list"

definition demo_env :: "(store, string, tx_params, string) env" where
  "demo_env =
     \<lparr>getKeyPair = (\<lambda>k w. (if k = [] then Inl (Thrown (JStr ''invalid key'')) else Inr k, w)),
      getPublic = (\<lambda>kp w. (Inr (''pub-'' @ kp), w)),
      newTransaction = (\<lambda>p w. (Inr p, w)),
      sign = (\<lambda>t kp w. (Inr (), w)),
      getHash = (\<lambda>t w. (Inr ''9f2c'', w)),
      history_recordProductCreation = (\<lambda>p u d w.
        (Inr \<lparr>hr_success = True, hr_transactionId = Some (''tx-'' @ p)\<rparr>,
         w @ [(''tx-'' @ p, JObj [(''productId'', JStr p), (''userId'', JStr u),
                                  (''details'', d)])])),
      history_recordProductTransfer = (\<lambda>p u fr t tr d w.
        (Inr \<lparr>hr_success = True, hr_transactionId = Some (''tx-'' @ p)\<rparr>,
         w @ [(''tx-'' @ p, JObj [(''productId'', JStr p), (''fromUserId'', JStr u),
                                  (''fromRole'', JStr fr), (''toUserId'', JStr t),
                                  (''toRole'', JStr tr), (''details'', d)])])),
      history_recordProductVerification = (\<lambda>p v vr ps d w.
        (Inr \<lparr>hr_success = True, hr_transactionId = Some (''tx-'' @ p)\<rparr>,
         w @ [(''tx-'' @ p, JObj [(''productId'', JStr p), (''verifierId'', JStr v),
                                  (''role'', JStr vr), (''passed'', JBool ps),
                                  (''details'', d)])])),
      history_getTransaction = (\<lambda>i w.
        (Inr (case map_of w i of None \<Rightarrow> JNull | Some r \<Rightarrow> r), w))\<rparr>"

text \<open>The same, with a History Store whose writes report failure and store nothing.\<close>

definition refusing_store_env :: "(store, string, tx_params, string) env" where
  "refusing_store_env =
     demo_env
       \<lparr>history_recordProductCreation :=
          (\<lambda>p u d w. (Inr \<lparr>hr_success = False, hr_transactionId = None\<rparr>, w)),
        history_recordProductTransfer :=
          (\<lambda>p u fr t tr d w. (Inr \<lparr>hr_success = False, hr_transactionId = None\<rparr>, w)),
        history_recordProductVerification :=
          (\<lambda>p v vr ps d w. (Inr \<lparr>hr_success = False, hr_transactionId = None\<rparr>, w))\<rparr>"

text \<open>The same as \<open>demo_env\<close>, with a History Store whose \<open>getTransaction\<close> throws.\<close>

definition unreadable_store_env :: "(store, string, tx_params, string) env" where
  "unreadable_store_env =
     demo_env
       \<lparr>history_getTransaction := (\<lambda>i w. (Inl (Thrown (JStr ''store unavailable'')), w))\<rparr>"

text \<open>The instance with no handler, with one that accepts and with one that rejects.\<close>

definition unregistered :: "(store, tx_params) BlockchainIntegration" where
  "unregistered = new_BlockchainIntegration"

definition accepting :: "(store, tx_params) BlockchainIntegration" where
  "accepting = setTransactionHandler new_BlockchainIntegration (\<lambda>t w. (Inr True, w))"

definition rejecting :: "(store, tx_params) BlockchainIntegration" where
  "rejecting = setTransactionHandler new_BlockchainIntegration (\<lambda>t w. (Inr False, w))"

text \<open>The three requests of the scenarios: a creation, a transfer and a verification.\<close>

definition creation_P1 :: "string request" where
  "creation_P1 = Creation ''P1'' ''U1'' ''K'' (JObj [(''weight'', JNum 10)])"

definition transfer_P1 :: "string request" where
  "transfer_P1 =
     Transfer ''P1'' ''U1'' ''U2'' ''PRODUCER'' ''DISTRIBUTOR'' ''K'' (JObj [(''note'', JStr ''lot 7'')])"

definition verification_P1 :: "string request" where
  "verification_P1 = Verification ''P1'' ''U3'' ''INSPECTOR'' ''K'' True (JObj [])"

text \<open>A creation with an empty private key, a transfer with no details, one that names the recipient's key.\<close>

definition bad_key_creation :: "string request" where
  "bad_key_creation = Creation ''P1'' ''U1'' [] (JObj [(''weight'', JNum 10)])"

definition null_details_transfer :: "string request" where
  "null_details_transfer = Transfer ''P1'' ''U1'' ''U2'' ''PRODUCER'' ''DISTRIBUTOR'' ''K'' JNull"

definition keyed_transfer :: "string request" where
  "keyed_transfer =
     Transfer ''P1'' ''U1'' ''U2'' ''PRODUCER'' ''DISTRIBUTOR'' ''K''
       (JObj [(''toPublicKey'', JStr ''pub-K2'')])"

text \<open>The transactions the three requests build, and the records the store keeps of them.\<close>

definition creation_tx :: tx_params where
  "creation_tx =
     \<lparr>tx_from = JStr ''pub-K'', tx_to = JStr ''pub-K'',
      tx_data = JObj [(''type'', JStr ''PRODUCT_CREATE''), (''productId'', JStr ''P1''),
                      (''details'', JObj [(''weight'', JNum 10)])]\<rparr>"

definition transfer_tx :: tx_params where
  "transfer_tx =
     \<lparr>tx_from = JStr ''pub-K'', tx_to = JStr ''default_public_key_for_U2'',
      tx_data = JObj [(''type'', JStr ''PRODUCT_TRANSFER''), (''productId'', JStr ''P1''),
                      (''fromUserId'', JStr ''U1''), (''toUserId'', JStr ''U2''),
                      (''details'', JObj [(''note'', JStr ''lot 7'')])]\<rparr>"

definition verification_tx :: tx_params where
  "verification_tx =
     \<lparr>tx_from = JStr ''pub-K'', tx_to = JStr ''pub-K'',
      tx_data = JObj [(''type'', JStr ''PRODUCT_VERIFICATION''), (''productId'', JStr ''P1''),
                      (''verifierId'', JStr ''U3''), (''verificationPassed'', JBool True),
                      (''details'', JObj [])]\<rparr>"

definition keyed_tx :: tx_params where
  "keyed_tx =
     \<lparr>tx_from = JStr ''pub-K'', tx_to = JStr ''pub-K2'',
      tx_data = JObj [(''type'', JStr ''PRODUCT_TRANSFER''), (''productId'', JStr ''P1''),
                      (''fromUserId'', JStr ''U1''), (''toUserId'', JStr ''U2''),
                      (''details'', JObj [(''toPublicKey'', JStr ''pub-K2'')])]\<rparr>"

definition creation_record :: jsval where
  "creation_record =
     JObj [(''productId'', JStr ''P1''), (''userId'', JStr ''U1''),
           (''details'', JObj [(''weight'', JNum 10)])]"

section \<open>Reasoning about computations\<close>

text \<open>
  \<open>wp m Q s\<close>: the outcome of \<open>m\<close> from \<open>s\<close>, and the state it leaves, satisfy \<open>Q\<close>. The
  equations below push \<open>wp\<close> through a computation call by call, so that a property of a
  whole operation becomes one condition for each path through it.
\<close>

definition wp :: "('s, 'a) prog \<Rightarrow> (exn + 'a \<Rightarrow> 's \<Rightarrow> bool) \<Rightarrow> 's \<Rightarrow> bool" where
  "wp m Q s = (case m s of (r, s') \<Rightarrow> Q r s')"

lemmas layer_defs =
  invoke_def recordProductCreation_def recordProductTransfer_def recordProductVerification_def
  updateTransactionWithBlockchainInfo_def bind_def try_catch_def ret_def lift_def perform_def
  console_log_def console_error_def

lemmas run_defs = outcome_def events_def world_after_def

lemmas demo_defs =
  demo_env_def refusing_store_env_def unreadable_store_env_def unregistered_def accepting_def
  rejecting_def new_BlockchainIntegration_def setTransactionHandler_def creation_P1_def
  transfer_P1_def verification_P1_def history_ok_def the_id_def failure_def js_or_def
  creation_tx_def transfer_tx_def verification_tx_def creation_record_def
  bad_key_creation_def null_details_transfer_def keyed_transfer_def keyed_tx_def

lemma wp_bind:
  "wp (bind m f) Q s =
     wp m (\<lambda>r s'. case r of Inl e \<Rightarrow> Q (Inl e) s' | Inr x \<Rightarrow> wp (f x) Q s') s"
  by (simp add: wp_def bind_def split: prod.split sum.split)

lemma wp_try_catch:
  "wp (try_catch m h) Q s =
     wp m (\<lambda>r s'. case r of Inl e \<Rightarrow> wp (h e) Q s' | Inr x \<Rightarrow> Q (Inr x) s') s"
  by (simp add: wp_def try_catch_def split: prod.split sum.split)

lemma wp_perform:
  "wp (perform ev f) Q (w, tr) = (\<forall>r w'. f w = (r, w') \<longrightarrow> Q r (w', tr @ [ev r]))"
  by (simp add: wp_def perform_def split: prod.split)

lemma wp_console:
  "wp (console_log msg) Q (w, tr) = Q (Inr ()) (w, tr @ [ConsoleLog msg])"
  "wp (console_error msg x) Q (w, tr) = Q (Inr ()) (w, tr @ [ConsoleError msg x])"
  by (simp_all add: wp_def console_log_def console_error_def)

lemma wp_ret:
  "wp (ret x) Q s = Q (Inr x) s"
  "wp (lift r) Q s = Q r s"
  by (simp_all add: wp_def ret_def lift_def)

lemma wp_invoke:
  "wp (invoke env this req) Q (w, []) \<Longrightarrow>
   Q (outcome env this req w) (world_after env this req w, events env this req w)"
  by (simp add: wp_def run_defs split: prod.splits)

lemmas wps = wp_bind wp_try_catch wp_perform wp_console wp_ret

lemmas ops =
  invoke_def recordProductCreation_def recordProductTransfer_def recordProductVerification_def
  updateTransactionWithBlockchainInfo_def

section \<open>The demonstration runs\<close>

lemma run_rejected_creation:
  "invoke demo_env rejecting creation_P1 ([], []) =
     (Inr failure, [],
      [GetKeyPair ''K'' (Inr ''K''), GetPublic ''K'' (Inr ''pub-K''),
       NewTransaction creation_tx (Inr creation_tx), Sign creation_tx ''K'' (Inr ()),
       Handler creation_tx (Inr False)])"
  by (simp add: layer_defs demo_defs)

lemma run_unregistered_creation:
  "invoke demo_env unregistered creation_P1 ([], []) =
     (Inr failure, [],
      [GetKeyPair ''K'' (Inr ''K''), GetPublic ''K'' (Inr ''pub-K''),
       NewTransaction creation_tx (Inr creation_tx), Sign creation_tx ''K'' (Inr ())])"
  by (simp add: layer_defs demo_defs)

lemma run_accepted_creation:
  "invoke demo_env accepting creation_P1 ([], []) =
     (Inr \<lparr>success = True, transactionHash = Some ''9f2c'', blockHash = None\<rparr>,
      [(''tx-P1'', creation_record)],
      [GetKeyPair ''K'' (Inr ''K''), GetPublic ''K'' (Inr ''pub-K''),
       NewTransaction creation_tx (Inr creation_tx), Sign creation_tx ''K'' (Inr ()),
       Handler creation_tx (Inr True),
       HistoryCreation ''P1'' ''U1'' (JObj [(''weight'', JNum 10)])
         (Inr \<lparr>hr_success = True, hr_transactionId = Some ''tx-P1''\<rparr>),
       GetHash creation_tx (Inr ''9f2c''),
       GetTransaction ''tx-P1'' (Inr creation_record),
       ConsoleLog ''Updating transaction tx-P1 with blockchain data'',
       ConsoleLog ''Block hash: pending, Transaction hash: 9f2c'',
       GetHash creation_tx (Inr ''9f2c'')])"
  by (simp add: layer_defs demo_defs)

lemma run_refused_creation:
  "invoke refusing_store_env accepting creation_P1 ([], []) =
     (Inr failure, [],
      [GetKeyPair ''K'' (Inr ''K''), GetPublic ''K'' (Inr ''pub-K''),
       NewTransaction creation_tx (Inr creation_tx), Sign creation_tx ''K'' (Inr ()),
       Handler creation_tx (Inr True),
       HistoryCreation ''P1'' ''U1'' (JObj [(''weight'', JNum 10)])
         (Inr \<lparr>hr_success = False, hr_transactionId = None\<rparr>)])"
  by (simp add: layer_defs demo_defs)

lemma run_unreadable_creation:
  "invoke unreadable_store_env accepting creation_P1 ([], []) =
     (Inr \<lparr>success = True, transactionHash = Some ''9f2c'', blockHash = None\<rparr>,
      [(''tx-P1'', creation_record)],
      [GetKeyPair ''K'' (Inr ''K''), GetPublic ''K'' (Inr ''pub-K''),
       NewTransaction creation_tx (Inr creation_tx), Sign creation_tx ''K'' (Inr ()),
       Handler creation_tx (Inr True),
       HistoryCreation ''P1'' ''U1'' (JObj [(''weight'', JNum 10)])
         (Inr \<lparr>hr_success = True, hr_transactionId = Some ''tx-P1''\<rparr>),
       GetHash creation_tx (Inr ''9f2c''),
       GetTransaction ''tx-P1'' (Inl (Thrown (JStr ''store unavailable''))),
       ConsoleError ''Error updating blockchain info for transaction tx-P1:''
         (Some (Thrown (JStr ''store unavailable''))),
       GetHash creation_tx (Inr ''9f2c'')])"
  by (simp add: layer_defs demo_defs)

lemma run_bad_key_creation:
  "invoke demo_env accepting bad_key_creation ([], []) =
     (Inr failure, [],
      [GetKeyPair [] (Inl (Thrown (JStr ''invalid key''))),
       ConsoleError ''Error recording product creation to blockchain:''
         (Some (Thrown (JStr ''invalid key'')))])"
  by (simp add: layer_defs demo_defs)

lemma run_null_details_transfer:
  "invoke demo_env accepting null_details_transfer ([], []) =
     (Inr failure, [],
      [GetKeyPair ''K'' (Inr ''K''), GetPublic ''K'' (Inr ''pub-K''),
       ConsoleError ''Error recording product transfer to blockchain:''
         (Some (TypeError ''Cannot read properties of null (reading 'toPublicKey')''))])"
  by (simp add: layer_defs demo_defs)

lemma run_rejected_transfer:
  "invoke demo_env rejecting transfer_P1 ([], []) =
     (Inr failure, [],
      [GetKeyPair ''K'' (Inr ''K''), GetPublic ''K'' (Inr ''pub-K''),
       NewTransaction transfer_tx (Inr transfer_tx), Sign transfer_tx ''K'' (Inr ()),
       Handler transfer_tx (Inr False)])"
  by (simp add: layer_defs demo_defs)

lemma run_rejected_verification:
  "invoke demo_env rejecting verification_P1 ([], []) =
     (Inr failure, [],
      [GetKeyPair ''K'' (Inr ''K''), GetPublic ''K'' (Inr ''pub-K''),
       NewTransaction verification_tx (Inr verification_tx), Sign verification_tx ''K'' (Inr ()),
       Handler verification_tx (Inr False)])"
  by (simp add: layer_defs demo_defs)

section \<open>Properties of every run\<close>

lemma rejected_run:
  "wp (invoke env this req)
     (\<lambda>r s. \<forall>t. Handler t (Inr False) \<in> set (snd s) \<longrightarrow>
        r = Inr failure \<and> filter is_history_write (snd s) = [] \<and> last (snd s) = Handler t (Inr False)) (w, [])"
  by (cases req) (simp_all add: ops wps split: sum.split option.split)

lemma write_after_accept:
  "wp (invoke env this req)
     (\<lambda>r s. \<forall>e\<in>set (snd s). is_history_write e \<longrightarrow>
        (\<exists>t. Handler t (Inr True) \<in> set (takeWhile (\<lambda>x. \<not> is_history_write x) (snd s)))) (w, [])"
  by (cases req) (simp_all add: ops wps split: sum.split option.split)

lemma at_most_one_handler_call:
  "wp (invoke env this req) (\<lambda>r s. length (filter is_handler_call (snd s)) \<le> 1) (w, [])"
  by (cases req) (simp_all add: ops wps split: sum.split option.split)

lemma never_throws:
  "wp (invoke env this req) (\<lambda>r s. \<exists>x. r = Inr x \<and> blockHash x = None) (w, [])"
  by (cases req) (simp_all add: ops wps failure_def split: sum.split option.split)

lemma failed_write_run:
  "wp (invoke env this req)
     (\<lambda>r s. \<forall>e\<in>set (snd s). \<forall>hr. write_outcome e = Some (Inr hr) \<and> \<not> history_ok hr \<longrightarrow>
        r = Inr failure \<and> last (snd s) = e) (w, [])"
  by (cases req) (simp_all add: ops wps split: sum.split option.split)

lemma reconciled_run:
  "wp (invoke env this req)
     (\<lambda>r s. \<forall>e\<in>set (snd s). \<forall>hr h. write_outcome e = Some (Inr hr) \<and> history_ok hr \<and>
        (\<forall>c\<in>set (snd s). \<forall>t g. c = GetHash t g \<longrightarrow> g = Inr h) \<longrightarrow>
        r = Inr \<lparr>success = True, transactionHash = Some h, blockHash = None\<rparr> \<and>
        (\<exists>t. Handler t (Inr True) \<in> set (snd s) \<and> GetHash t (Inr h) \<in> set (snd s)) \<and>
        (\<exists>g. filter is_history_call (snd s) = [e, GetTransaction (the_id hr) g] \<and>
           (\<forall>v. g = Inr v \<and> truthy v \<longrightarrow>
              filter is_console (snd s) =
                [ConsoleLog (''Updating transaction '' @ the_id hr @ '' with blockchain data''),
                 ConsoleLog (''Block hash: pending, Transaction hash: '' @ h)]) \<and>
           (\<forall>v. g = Inr v \<and> \<not> truthy v \<longrightarrow>
              filter is_console (snd s) =
                [ConsoleError (''Transaction '' @ the_id hr @ '' not found for blockchain update'')
                   None]) \<and>
           (\<forall>x. g = Inl x \<longrightarrow>
              filter is_console (snd s) =
                [ConsoleError
                   (''Error updating blockchain info for transaction '' @ the_id hr @ '':'')
                   (Some x)]))) (w, [])"
  by (cases req) (simp_all add: ops wps split: sum.split option.split)

lemma unregistered_run:
  "transactionHandler this = None \<Longrightarrow>
   wp (invoke env this req)
     (\<lambda>r s. r = Inr failure \<and> filter is_history_write (snd s) = [] \<and>
        filter is_handler_call (snd s) = []) (w, [])"
  by (cases req) (simp_all add: ops wps split: sum.split option.split)

lemma caught_run:
  "wp (invoke env this req)
     (\<lambda>r s. \<forall>e\<in>set (snd s). \<forall>x. thrown e = Some x \<longrightarrow>
        ConsoleError (diagnostic req e) (Some x) \<in> set (snd s) \<and>
        (in_reconciliation e \<or> r = Inr failure)) (w, [])"
  by (cases req) (simp_all add: ops wps thrown_of_def split: sum.split option.split)

lemma absorbed_run:
  "wp (invoke env this req)
     (\<lambda>r s. \<forall>e\<in>set (snd s). \<forall>i g h. e = GetTransaction i g \<and>
        (\<forall>c\<in>set (snd s). \<forall>t g'. c = GetHash t g' \<longrightarrow> g' = Inr h) \<longrightarrow>
        r = Inr \<lparr>success = True, transactionHash = Some h, blockHash = None\<rparr> \<and>
        (\<forall>x. g = Inl x \<longrightarrow>
           ConsoleError (''Error updating blockchain info for transaction '' @ i @ '':'') (Some x)
             \<in> set (snd s)) \<and>
        (\<forall>v. g = Inr v \<and> \<not> truthy v \<longrightarrow>
           ConsoleError (''Transaction '' @ i @ '' not found for blockchain update'') None
             \<in> set (snd s)) \<and>
        (\<exists>t. Handler t (Inr True) \<in> set (snd s)) \<and>
        (\<exists>c\<in>set (snd s). \<exists>hr. write_outcome c = Some (Inr hr) \<and> history_ok hr \<and>
           i = the_id hr)) (w, [])"
  by (cases req) (simp_all add: ops wps split: sum.split option.split)

lemma update_returns:
  "wp (updateTransactionWithBlockchainInfo env i b h) (\<lambda>r s. r = Inr ()) (w, tr)"
  by (simp add: ops wps split: sum.split)


lemma own_recipient:
  "\<not> is_transfer req \<Longrightarrow>
   wp (invoke env this req)
     (\<lambda>r s. \<forall>e\<in>set (snd s). \<forall>P g. e = NewTransaction P g \<longrightarrow>
        tx_from P = tx_to P \<and>
        (\<exists>kp pk. GetKeyPair (privateKey_of req) (Inr kp) \<in> set (snd s) \<and>
           GetPublic kp (Inr pk) \<in> set (snd s) \<and>
           tx_from P = JStr pk \<and> tx_to P = JStr pk)) (w, [])"
  by (cases req) (simp_all add: ops wps split: sum.split option.split)

lemma own_transaction_built:
  "\<not> is_transfer req \<Longrightarrow>
   wp (invoke env this req)
     (\<lambda>r s. \<forall>e\<in>set (snd s). \<forall>kp pk. e = GetPublic kp (Inr pk) \<longrightarrow>
        (\<exists>c\<in>set (snd s). \<exists>P g. c = NewTransaction P g \<and>
           tx_from P = JStr pk \<and> tx_to P = JStr pk)) (w, [])"
  by (cases req) (simp_all add: ops wps split: sum.split option.split)

lemma own_key_derived:
  "wp (invoke env this req)
     (\<lambda>r s. (\<exists>c\<in>set (snd s). \<exists>g. c = GetKeyPair (privateKey_of req) g) \<and>
        (\<forall>e\<in>set (snd s). \<forall>kp. e = GetKeyPair (privateKey_of req) (Inr kp) \<longrightarrow>
           (\<exists>c\<in>set (snd s). \<exists>g. c = GetPublic kp g))) (w, [])"
  by (cases req) (simp_all add: ops wps split: sum.split option.split)

lemma nullish_details_run:
  "member d ''toPublicKey'' = Inl x \<Longrightarrow>
   wp (invoke env this (Transfer p u t fr tr k d))
     (\<lambda>r s. r = Inr failure \<and>
        ((\<exists>e\<in>set (snd s). \<exists>kp pk. e = GetPublic kp (Inr pk)) \<longrightarrow>
           ConsoleError ''Error recording product transfer to blockchain:'' (Some x) \<in> set (snd s)))
     (w, [])"
  by (simp add: ops wps split: sum.split option.split)

lemma rejection_like_unregistered:
  "transactionHandler this = None \<Longrightarrow>
   wp (invoke env this' req)
     (\<lambda>r' s'. wp (invoke env this req)
        (\<lambda>r s. \<forall>t. Handler t (Inr False) \<in> set (snd s') \<longrightarrow>
           r' = r \<and> snd s' = snd s @ [Handler t (Inr False)]) (w, [])) (w, [])"
  by (cases req) (simp_all add: ops wps split: sum.split option.split)


lemma run_parts:
  "invoke env this req (w, []) = (r, w', tr) \<Longrightarrow>
   outcome env this req w = r \<and> world_after env this req w = w' \<and> events env this req w = tr"
  by (simp add: run_defs)


lemma write_outcome_is_write: "write_outcome e = Some r \<Longrightarrow> is_history_write e"
  by (cases e) simp_all

section \<open>Properties of the three public operations\<close>

text \<open>
  C1. In every call of one of the three public operations, if the registered ledger handler
  returns \<open>false\<close> for the submitted transaction, the operation returns \<open>{success: false}\<close>
  and makes no History Store write. Hence a History Store write is made only after the
  handler has accepted: whenever the call writes to the History Store, the events before
  its first write contain a handler call that returned \<open>true\<close>.
\<close>

theorem ledger_rejection_writes_no_history:
  "(Handler t (Inr False) \<in> set (events env this req w) \<longrightarrow>
      outcome env this req w = Inr \<lparr>success = False, transactionHash = None, blockHash = None\<rparr> \<and>
      filter is_history_write (events env this req w) = []) \<and>
   ((\<exists>e\<in>set (events env this req w). is_history_write e) \<longrightarrow>
      (\<exists>t'. Handler t' (Inr True)
         \<in> set (takeWhile (\<lambda>x. \<not> is_history_write x) (events env this req w))))"
  using wp_invoke [OF rejected_run, of env this req w]
    wp_invoke [OF write_after_accept, of env this req w]
  by (auto simp: failure_def)

theorem ledger_rejection_writes_no_history_witness:
  "Handler creation_tx (Inr False) \<in> set (events demo_env rejecting creation_P1 []) \<and>
   outcome demo_env rejecting creation_P1 [] =
     Inr \<lparr>success = False, transactionHash = None, blockHash = None\<rparr> \<and>
   filter is_history_write (events demo_env rejecting creation_P1 []) = [] \<and>
   (\<exists>e\<in>set (events demo_env accepting creation_P1 []). is_history_write e) \<and>
   (\<exists>t'. Handler t' (Inr True)
      \<in> set (takeWhile (\<lambda>x. \<not> is_history_write x) (events demo_env accepting creation_P1 [])))"
proof -
  have rejected: "Handler creation_tx (Inr False) \<in> set (events demo_env rejecting creation_P1 [])"
    by (simp add: run_parts [OF run_rejected_creation])
  have written: "\<exists>e\<in>set (events demo_env accepting creation_P1 []). is_history_write e"
    by (simp add: run_parts [OF run_accepted_creation])
  show ?thesis
    using rejected written
      ledger_rejection_writes_no_history [of creation_tx demo_env rejecting creation_P1 "[]"]
      ledger_rejection_writes_no_history [of creation_tx demo_env accepting creation_P1 "[]"]
    by blast
qed

text \<open>
  C2. As the claim states it (a failed History Store write after ledger acceptance still
  gives \<open>{success: true, transactionHash}\<close>), the property fails: with a handler that
  accepts and a store whose write reports failure, the creation of product P1 returns
  \<open>{success: false}\<close>.
\<close>

theorem failed_history_write_counterexample:
  "outcome refusing_store_env accepting creation_P1 [] =
     Inr \<lparr>success = False, transactionHash = None, blockHash = None\<rparr> \<and>
   events refusing_store_env accepting creation_P1 [] =
     [GetKeyPair ''K'' (Inr ''K''), GetPublic ''K'' (Inr ''pub-K''),
      NewTransaction creation_tx (Inr creation_tx), Sign creation_tx ''K'' (Inr ()),
      Handler creation_tx (Inr True),
      HistoryCreation ''P1'' ''U1'' (JObj [(''weight'', JNum 10)])
        (Inr \<lparr>hr_success = False, hr_transactionId = None\<rparr>)]"
  by (simp add: run_parts [OF run_refused_creation] failure_def)

text \<open>
  C2, as amended. In every call in which the ledger handler returned \<open>true\<close> and the
  History Store write then returned a result with \<open>success\<close> false or with no (or an
  empty) \<open>transactionId\<close>, the operation returns \<open>{success: false}\<close> with no
  \<open>transactionHash\<close>, and the write is the last thing the call does: no reconciliation,
  no log line.
\<close>

theorem failed_history_write_reports_failure:
  assumes "e \<in> set (events env this req w)"
    and "write_outcome e = Some (Inr hr)"
    and "\<not> history_ok hr"
  shows "outcome env this req w =
           Inr \<lparr>success = False, transactionHash = None, blockHash = None\<rparr> \<and>
         last (events env this req w) = e \<and>
         (\<exists>t. Handler t (Inr True) \<in> set (events env this req w))"
proof -
  have "is_history_write e"
    using assms(2) by (rule write_outcome_is_write)
  then obtain t where
    "Handler t (Inr True) \<in> set (takeWhile (\<lambda>x. \<not> is_history_write x) (events env this req w))"
    using assms(1) wp_invoke [OF write_after_accept, of env this req w] by auto
  then have "Handler t (Inr True) \<in> set (events env this req w)"
    by (rule set_takeWhileD [THEN conjunct1])
  moreover have "outcome env this req w = Inr failure \<and> last (events env this req w) = e"
    using assms wp_invoke [OF failed_write_run, of env this req w] by auto
  ultimately show ?thesis
    by (auto simp: failure_def)
qed

theorem failed_history_write_reports_failure_witness:
  "outcome refusing_store_env accepting creation_P1 [] =
     Inr \<lparr>success = False, transactionHash = None, blockHash = None\<rparr> \<and>
   last (events refusing_store_env accepting creation_P1 []) =
     HistoryCreation ''P1'' ''U1'' (JObj [(''weight'', JNum 10)])
       (Inr \<lparr>hr_success = False, hr_transactionId = None\<rparr>) \<and>
   (\<exists>t. Handler t (Inr True) \<in> set (events refusing_store_env accepting creation_P1 []))"
proof -
  let ?e = "HistoryCreation ''P1'' ''U1'' (JObj [(''weight'', JNum 10)])
              (Inr \<lparr>hr_success = False, hr_transactionId = None\<rparr>) :: (string, tx_params, string) event"
  have "?e \<in> set (events refusing_store_env accepting creation_P1 [])"
    by (simp add: run_parts [OF run_refused_creation])
  moreover have "write_outcome ?e = Some (Inr \<lparr>hr_success = False, hr_transactionId = None\<rparr>)"
    by simp
  moreover have "\<not> history_ok \<lparr>hr_success = False, hr_transactionId = None\<rparr>"
    by (simp add: history_ok_def)
  ultimately show ?thesis
    by (rule failed_history_write_reports_failure)
qed

text \<open>
  C3. As the claim states it, the property fails in its last part: after a creation that
  the ledger accepted and the History Store recorded, the record the store holds has no
  \<open>blockHash\<close> and no \<open>transactionHash\<close>; the layer called the store twice, once to
  write and once to read.
\<close>

theorem reconciled_record_counterexample:
  "outcome demo_env accepting creation_P1 [] =
     Inr \<lparr>success = True, transactionHash = Some ''9f2c'', blockHash = None\<rparr> \<and>
   world_after demo_env accepting creation_P1 [] = [(''tx-P1'', creation_record)] \<and>
   member creation_record ''blockHash'' = Inr JUndefined \<and>
   member creation_record ''transactionHash'' = Inr JUndefined \<and>
   filter is_history_call (events demo_env accepting creation_P1 []) =
     [HistoryCreation ''P1'' ''U1'' (JObj [(''weight'', JNum 10)])
        (Inr \<lparr>hr_success = True, hr_transactionId = Some ''tx-P1''\<rparr>),
      GetTransaction ''tx-P1'' (Inr creation_record)]"
  by (simp add: run_parts [OF run_accepted_creation] creation_record_def)

text \<open>
  C3, as amended. In every call in which the ledger handler returned \<open>true\<close>, the History
  Store write returned success with a non-empty \<open>transactionId\<close>, and \<open>getHash()\<close> of the
  transaction returns its non-empty hash \<open>h\<close>, the result is
  \<open>{success: true, transactionHash}\<close> with a non-empty \<open>transactionHash\<close> equal to \<open>h\<close>, the
  hash of the transaction that was submitted to the handler. The reconciliation step then
  reads the record with \<open>getTransaction(transactionId)\<close> and reports on the console: the
  block hash \<open>pending\<close> and \<open>h\<close> when the record is found, an error when it is not found
  or the read throws. The write and this read are the only History Store calls of the
  run: nothing is attached to the History Record.
\<close>

theorem accepted_and_recorded_returns_hash:
  assumes "e \<in> set (events env this req w)"
    and "write_outcome e = Some (Inr hr)"
    and "history_ok hr"
    and "\<forall>c\<in>set (events env this req w). \<forall>t g. c = GetHash t g \<longrightarrow> g = Inr h"
    and "h \<noteq> []"
  shows "(\<exists>h'. outcome env this req w =
              Inr \<lparr>success = True, transactionHash = Some h', blockHash = None\<rparr> \<and>
            h' \<noteq> [] \<and> h' = h) \<and>
         (\<exists>t. Handler t (Inr True) \<in> set (events env this req w) \<and>
              GetHash t (Inr h) \<in> set (events env this req w)) \<and>
         (\<exists>g. filter is_history_call (events env this req w) =
                [e, GetTransaction (the_id hr) g] \<and>
              (\<forall>v. g = Inr v \<and> truthy v \<longrightarrow>
                 filter is_console (events env this req w) =
                   [ConsoleLog (''Updating transaction '' @ the_id hr @ '' with blockchain data''),
                    ConsoleLog (''Block hash: pending, Transaction hash: '' @ h)]) \<and>
              (\<forall>v. g = Inr v \<and> \<not> truthy v \<longrightarrow>
                 filter is_console (events env this req w) =
                   [ConsoleError
                      (''Transaction '' @ the_id hr @ '' not found for blockchain update'') None]) \<and>
              (\<forall>x. g = Inl x \<longrightarrow>
                 filter is_console (events env this req w) =
                   [ConsoleError
                      (''Error updating blockchain info for transaction '' @ the_id hr @ '':'')
                      (Some x)]))"
  using assms wp_invoke [OF reconciled_run, of env this req w]
  by (simp del: filter.simps)

theorem accepted_and_recorded_returns_hash_witness:
  "outcome demo_env accepting creation_P1 [] =
     Inr \<lparr>success = True, transactionHash = Some ''9f2c'', blockHash = None\<rparr> \<and>
   ''9f2c'' \<noteq> [] \<and>
   (\<exists>t. Handler t (Inr True) \<in> set (events demo_env accepting creation_P1 []) \<and>
        GetHash t (Inr ''9f2c'') \<in> set (events demo_env accepting creation_P1 [])) \<and>
   filter is_history_call (events demo_env accepting creation_P1 []) =
     [HistoryCreation ''P1'' ''U1'' (JObj [(''weight'', JNum 10)])
        (Inr \<lparr>hr_success = True, hr_transactionId = Some ''tx-P1''\<rparr>),
      GetTransaction ''tx-P1'' (Inr creation_record)] \<and>
   filter is_console (events demo_env accepting creation_P1 []) =
     [ConsoleLog ''Updating transaction tx-P1 with blockchain data'',
      ConsoleLog ''Block hash: pending, Transaction hash: 9f2c'']"
proof -
  let ?hr = "\<lparr>hr_success = True, hr_transactionId = Some ''tx-P1''\<rparr>"
  let ?e = "HistoryCreation ''P1'' ''U1'' (JObj [(''weight'', JNum 10)]) (Inr ?hr)
              :: (string, tx_params, string) event"
  have written: "?e \<in> set (events demo_env accepting creation_P1 [])"
    by (simp add: run_parts [OF run_accepted_creation])
  have returned: "write_outcome ?e = Some (Inr ?hr)"
    by simp
  have ok: "history_ok ?hr"
    by (simp add: history_ok_def)
  have hashed: "\<forall>c\<in>set (events demo_env accepting creation_P1 []).
                  \<forall>t g. c = GetHash t g \<longrightarrow> g = Inr ''9f2c''"
    by (simp add: run_parts [OF run_accepted_creation])
  have nonempty: "''9f2c'' \<noteq> []"
    by simp
  have found: "truthy creation_record" "the_id ?hr = ''tx-P1''"
    by (simp_all add: creation_record_def the_id_def)
  have calls: "filter is_history_call (events demo_env accepting creation_P1 []) =
      [?e, GetTransaction ''tx-P1'' (Inr creation_record)]"
    by (simp add: run_parts [OF run_accepted_creation])
  show ?thesis
    using accepted_and_recorded_returns_hash [OF written returned ok hashed nonempty] found calls
    by auto
qed

text \<open>
  C4. In every call made while no ledger handler is registered, the operation returns
  \<open>{success: false}\<close> (it does not throw), the History Store receives no write and no
  handler is called. This is what a rejecting handler gives: a run in which a registered
  handler returns \<open>false\<close> has the same result and the same events, followed by the
  handler call.
\<close>

theorem no_handler_is_rejection:
  assumes "transactionHandler this = None"
  shows "outcome env this req w =
           Inr \<lparr>success = False, transactionHash = None, blockHash = None\<rparr> \<and>
         filter is_history_write (events env this req w) = [] \<and>
         filter is_handler_call (events env this req w) = [] \<and>
         (\<forall>this' t. Handler t (Inr False) \<in> set (events env this' req w) \<longrightarrow>
            outcome env this' req w = outcome env this req w \<and>
            events env this' req w = events env this req w @ [Handler t (Inr False)])"
proof -
  have "outcome env this req w = Inr failure \<and>
        filter is_history_write (events env this req w) = [] \<and>
        filter is_handler_call (events env this req w) = []"
    using wp_invoke [OF unregistered_run [OF assms], of env req w] by simp
  moreover have "outcome env this' req w = outcome env this req w \<and>
                 events env this' req w = events env this req w @ [Handler t (Inr False)]"
    if "Handler t (Inr False) \<in> set (events env this' req w)" for this' t
    using that wp_invoke [OF wp_invoke [OF rejection_like_unregistered [OF assms, of env this' req w]]]
    by simp
  ultimately show ?thesis
    by (simp add: failure_def)
qed

theorem no_handler_is_rejection_witness:
  "outcome demo_env unregistered creation_P1 [] =
     Inr \<lparr>success = False, transactionHash = None, blockHash = None\<rparr> \<and>
   filter is_history_write (events demo_env unregistered creation_P1 []) = [] \<and>
   filter is_handler_call (events demo_env unregistered creation_P1 []) = [] \<and>
   Handler creation_tx (Inr False) \<in> set (events demo_env rejecting creation_P1 []) \<and>
   outcome demo_env rejecting creation_P1 [] = outcome demo_env unregistered creation_P1 [] \<and>
   events demo_env rejecting creation_P1 [] =
     events demo_env unregistered creation_P1 [] @ [Handler creation_tx (Inr False)]"
proof -
  have none: "transactionHandler unregistered = None"
    by (simp add: unregistered_def new_BlockchainIntegration_def)
  have rejected: "Handler creation_tx (Inr False) \<in> set (events demo_env rejecting creation_P1 [])"
    by (simp add: run_parts [OF run_rejected_creation])
  show ?thesis
    using rejected no_handler_is_rejection [OF none, of demo_env creation_P1 "[]"]
    by blast
qed

text \<open>
  C5. As the claim states it (every internal failure is turned into \<open>{success: false}\<close>),
  the property fails for a failure inside the reconciliation step: with a History Store
  whose \<open>getTransaction\<close> throws, the creation of product P1 returns
  \<open>{success: true, transactionHash}\<close>.
\<close>

theorem reconciliation_exception_counterexample:
  "GetTransaction ''tx-P1'' (Inl (Thrown (JStr ''store unavailable'')))
     \<in> set (events unreadable_store_env accepting creation_P1 []) \<and>
   outcome unreadable_store_env accepting creation_P1 [] =
     Inr \<lparr>success = True, transactionHash = Some ''9f2c'', blockHash = None\<rparr>"
  by (simp add: run_parts [OF run_unreadable_creation])

text \<open>
  C5, as amended. No exception escapes any of the three public operations: every call
  returns a result of the shape \<open>{success, transactionHash?}\<close>. Every exception a
  collaborator throws is logged with \<open>console.error\<close>; thrown anywhere but by
  \<open>getTransaction\<close> in the reconciliation step (by key derivation, by the constructor,
  \<open>sign\<close> or \<open>getHash\<close> of the transaction, by the ledger handler, by a History Store
  write), it makes the result \<open>{success: false}\<close>. So does the TypeError of reading
  \<open>toPublicKey\<close> of \<open>null\<close> or \<open>undefined\<close> details in a transfer.
\<close>

theorem no_exception_escapes:
  "(\<exists>r. outcome env this req w = Inr r) \<and>
   (\<forall>e\<in>set (events env this req w). \<forall>x. thrown e = Some x \<longrightarrow>
      ConsoleError (diagnostic req e) (Some x) \<in> set (events env this req w) \<and>
      (\<not> in_reconciliation e \<longrightarrow>
         outcome env this req w =
           Inr \<lparr>success = False, transactionHash = None, blockHash = None\<rparr>)) \<and>
   (\<forall>p u t fr tr k d x kp pk.
      req = Transfer p u t fr tr k d \<and> member d ''toPublicKey'' = Inl x \<and>
      GetPublic kp (Inr pk) \<in> set (events env this req w) \<longrightarrow>
      ConsoleError (catch_message req) (Some x) \<in> set (events env this req w) \<and>
      outcome env this req w = Inr \<lparr>success = False, transactionHash = None, blockHash = None\<rparr>)"
proof -
  have "\<exists>r. outcome env this req w = Inr r"
    using wp_invoke [OF never_throws, of env this req w] by auto
  moreover have "\<forall>e\<in>set (events env this req w). \<forall>x. thrown e = Some x \<longrightarrow>
      ConsoleError (diagnostic req e) (Some x) \<in> set (events env this req w) \<and>
      (\<not> in_reconciliation e \<longrightarrow> outcome env this req w = Inr failure)"
    using wp_invoke [OF caught_run, of env this req w] by auto
  moreover have "ConsoleError (catch_message req) (Some x) \<in> set (events env this req w) \<and>
      outcome env this req w = Inr failure"
    if "req = Transfer p u t fr tr k d" "member d ''toPublicKey'' = Inl x"
      "GetPublic kp (Inr pk) \<in> set (events env this req w)" for p u t fr tr k d x kp pk
    using that wp_invoke [OF nullish_details_run [OF that(2)], of env this p u t fr tr k w]
    by auto
  ultimately show ?thesis
    unfolding failure_def by blast
qed

theorem no_exception_escapes_witness:
  "(\<exists>r. outcome demo_env accepting bad_key_creation [] = Inr r) \<and>
   GetKeyPair [] (Inl (Thrown (JStr ''invalid key'')))
     \<in> set (events demo_env accepting bad_key_creation []) \<and>
   ConsoleError ''Error recording product creation to blockchain:''
       (Some (Thrown (JStr ''invalid key'')))
     \<in> set (events demo_env accepting bad_key_creation []) \<and>
   outcome demo_env accepting bad_key_creation [] =
     Inr \<lparr>success = False, transactionHash = None, blockHash = None\<rparr> \<and>
   GetPublic ''K'' (Inr ''pub-K'') \<in> set (events demo_env accepting null_details_transfer []) \<and>
   ConsoleError ''Error recording product transfer to blockchain:''
       (Some (TypeError ''Cannot read properties of null (reading 'toPublicKey')''))
     \<in> set (events demo_env accepting null_details_transfer []) \<and>
   outcome demo_env accepting null_details_transfer [] =
     Inr \<lparr>success = False, transactionHash = None, blockHash = None\<rparr>"
proof -
  let ?e = "GetKeyPair [] (Inl (Thrown (JStr ''invalid key''))) :: (string, tx_params, string) event"
  have threw: "?e \<in> set (events demo_env accepting bad_key_creation [])"
    by (simp add: run_parts [OF run_bad_key_creation])
  have threw': "thrown ?e = Some (Thrown (JStr ''invalid key''))"
    "\<not> in_reconciliation ?e"
    "diagnostic bad_key_creation ?e = ''Error recording product creation to blockchain:''"
    by (simp_all add: thrown_of_def bad_key_creation_def)
  have null: "GetPublic ''K'' (Inr ''pub-K'')
      \<in> set (events demo_env accepting null_details_transfer [])"
    by (simp add: run_parts [OF run_null_details_transfer])
  have null': "null_details_transfer =
        Transfer ''P1'' ''U1'' ''U2'' ''PRODUCER'' ''DISTRIBUTOR'' ''K'' JNull"
    "member JNull ''toPublicKey'' =
       Inl (TypeError ''Cannot read properties of null (reading 'toPublicKey')'')"
    "catch_message null_details_transfer = ''Error recording product transfer to blockchain:''"
    by (simp_all add: null_details_transfer_def)
  show ?thesis
    using threw threw' null null' 
      no_exception_escapes [of demo_env accepting bad_key_creation "[]"]
      no_exception_escapes [of demo_env accepting null_details_transfer "[]"]
    by (metis (no_types, lifting))
qed

text \<open>
  C6. In every call in which the reconciliation step ran and \<open>getHash()\<close> of the
  transaction returns \<open>h\<close>, the result is \<open>{success: true, transactionHash: h}\<close>
  whatever \<open>getTransaction\<close> did: when it threw and when it found no record, the failure
  is logged with \<open>console.error\<close> and changes nothing else. The step runs only after the
  ledger handler accepted and the History Store write succeeded, on the identifier that
  write returned, and \<open>updateTransactionWithBlockchainInfo\<close> itself never throws.
\<close>

theorem reconciliation_failure_absorbed:
  assumes "GetTransaction i g \<in> set (events env this req w)"
    and "\<forall>c\<in>set (events env this req w). \<forall>t g'. c = GetHash t g' \<longrightarrow> g' = Inr h"
  shows "outcome env this req w =
           Inr \<lparr>success = True, transactionHash = Some h, blockHash = None\<rparr> \<and>
         (\<forall>x. g = Inl x \<longrightarrow>
            ConsoleError (''Error updating blockchain info for transaction '' @ i @ '':'') (Some x)
              \<in> set (events env this req w)) \<and>
         (\<forall>v. g = Inr v \<and> \<not> truthy v \<longrightarrow>
            ConsoleError (''Transaction '' @ i @ '' not found for blockchain update'') None
              \<in> set (events env this req w)) \<and>
         (\<exists>t. Handler t (Inr True) \<in> set (events env this req w)) \<and>
         (\<exists>c\<in>set (events env this req w). \<exists>hr.
            write_outcome c = Some (Inr hr) \<and> history_ok hr \<and> i = the_id hr) \<and>
         fst (updateTransactionWithBlockchainInfo env i' b' h' (w', tr')) = Inr ()"
proof -
  have "fst (updateTransactionWithBlockchainInfo env i' b' h' (w', tr')) = Inr ()"
    using update_returns [of env i' b' h' w' tr'] by (simp add: wp_def split: prod.splits)
  then show ?thesis
    using assms wp_invoke [OF absorbed_run, of env this req w] by simp
qed

theorem reconciliation_failure_absorbed_witness:
  "outcome unreadable_store_env accepting creation_P1 [] =
     Inr \<lparr>success = True, transactionHash = Some ''9f2c'', blockHash = None\<rparr> \<and>
   ConsoleError (''Error updating blockchain info for transaction '' @ ''tx-P1'' @ '':'')
       (Some (Thrown (JStr ''store unavailable'')))
     \<in> set (events unreadable_store_env accepting creation_P1 []) \<and>
   (\<exists>t. Handler t (Inr True) \<in> set (events unreadable_store_env accepting creation_P1 [])) \<and>
   (\<exists>c\<in>set (events unreadable_store_env accepting creation_P1 []). \<exists>hr.
      write_outcome c = Some (Inr hr) \<and> history_ok hr \<and> ''tx-P1'' = the_id hr) \<and>
   fst (updateTransactionWithBlockchainInfo unreadable_store_env ''tx-P1'' ''pending'' ''9f2c''
          ([], [])) = Inr ()"
proof -
  have "GetTransaction ''tx-P1'' (Inl (Thrown (JStr ''store unavailable'')))
          \<in> set (events unreadable_store_env accepting creation_P1 [])"
    by (simp add: run_parts [OF run_unreadable_creation])
  moreover have "\<forall>c\<in>set (events unreadable_store_env accepting creation_P1 []).
                   \<forall>t g'. c = GetHash t g' \<longrightarrow> g' = Inr ''9f2c''"
    by (simp add: run_parts [OF run_unreadable_creation])
  ultimately show ?thesis
    using reconciliation_failure_absorbed
      [of "''tx-P1''" "Inl (Thrown (JStr ''store unavailable''))" unreadable_store_env accepting
        creation_P1 "[]" "''9f2c''" "''tx-P1''" "''pending''" "''9f2c''" "[]" "[]"]
    by blast
qed



text \<open>
  C8. In every creation call and every verification call, the \<open>from\<close> and \<open>to\<close> fields of
  the transaction that is built are equal: both are the public key that \<open>getPublic("hex")\<close>
  returned for the key pair that \<open>getKeyPair\<close> derived from the supplied private key. Every
  call asks \<open>getKeyPair\<close> for the key pair of the supplied private key, asks the key pair it
  gets for its public key, and builds such a transaction from the public key it gets.
\<close>

theorem creation_and_verification_self_addressed:
  assumes "\<not> is_transfer req"
  shows "(\<forall>P g. NewTransaction P g \<in> set (events env this req w) \<longrightarrow>
            tx_from P = tx_to P \<and>
            (\<exists>kp pk. GetKeyPair (privateKey_of req) (Inr kp) \<in> set (events env this req w) \<and>
               GetPublic kp (Inr pk) \<in> set (events env this req w) \<and>
               tx_from P = JStr pk \<and> tx_to P = JStr pk)) \<and>
         (\<forall>kp pk. GetPublic kp (Inr pk) \<in> set (events env this req w) \<longrightarrow>
            (\<exists>P g. NewTransaction P g \<in> set (events env this req w) \<and>
               tx_from P = JStr pk \<and> tx_to P = JStr pk)) \<and>
         (\<exists>g. GetKeyPair (privateKey_of req) g \<in> set (events env this req w)) \<and>
         (\<forall>kp. GetKeyPair (privateKey_of req) (Inr kp) \<in> set (events env this req w) \<longrightarrow>
            (\<exists>g. GetPublic kp g \<in> set (events env this req w)))"
proof (intro conjI)
  show "\<forall>P g. NewTransaction P g \<in> set (events env this req w) \<longrightarrow>
            tx_from P = tx_to P \<and>
            (\<exists>kp pk. GetKeyPair (privateKey_of req) (Inr kp) \<in> set (events env this req w) \<and>
               GetPublic kp (Inr pk) \<in> set (events env this req w) \<and>
               tx_from P = JStr pk \<and> tx_to P = JStr pk)"
    using wp_invoke [OF own_recipient [OF assms], of env this w, unfolded snd_conv]
    by blast
  show "\<forall>kp pk. GetPublic kp (Inr pk) \<in> set (events env this req w) \<longrightarrow>
            (\<exists>P g. NewTransaction P g \<in> set (events env this req w) \<and>
               tx_from P = JStr pk \<and> tx_to P = JStr pk)"
    using wp_invoke [OF own_transaction_built [OF assms], of env this w, unfolded snd_conv]
    by blast
  show "\<exists>g. GetKeyPair (privateKey_of req) g \<in> set (events env this req w)"
    using wp_invoke [OF own_key_derived, of env this req w, unfolded snd_conv]
    by blast
  show "\<forall>kp. GetKeyPair (privateKey_of req) (Inr kp) \<in> set (events env this req w) \<longrightarrow>
            (\<exists>g. GetPublic kp g \<in> set (events env this req w))"
    using wp_invoke [OF own_key_derived, of env this req w, unfolded snd_conv]
    by blast
qed

theorem creation_and_verification_self_addressed_witness:
  "NewTransaction creation_tx (Inr creation_tx) \<in> set (events demo_env rejecting creation_P1 []) \<and>
   GetKeyPair ''K'' (Inr ''K'') \<in> set (events demo_env rejecting creation_P1 []) \<and>
   GetPublic ''K'' (Inr ''pub-K'') \<in> set (events demo_env rejecting creation_P1 []) \<and>
   tx_from creation_tx = JStr ''pub-K'' \<and> tx_to creation_tx = JStr ''pub-K'' \<and>
   tx_from creation_tx = tx_to creation_tx \<and>
   (\<exists>kp pk. GetKeyPair (privateKey_of creation_P1) (Inr kp)
               \<in> set (events demo_env rejecting creation_P1 []) \<and>
            GetPublic kp (Inr pk) \<in> set (events demo_env rejecting creation_P1 []) \<and>
            tx_from creation_tx = JStr pk \<and> tx_to creation_tx = JStr pk) \<and>
   NewTransaction verification_tx (Inr verification_tx)
     \<in> set (events demo_env rejecting verification_P1 []) \<and>
   GetKeyPair ''K'' (Inr ''K'') \<in> set (events demo_env rejecting verification_P1 []) \<and>
   GetPublic ''K'' (Inr ''pub-K'') \<in> set (events demo_env rejecting verification_P1 []) \<and>
   tx_from verification_tx = JStr ''pub-K'' \<and> tx_to verification_tx = JStr ''pub-K'' \<and>
   tx_from verification_tx = tx_to verification_tx \<and>
   (\<exists>kp pk. GetKeyPair (privateKey_of verification_P1) (Inr kp)
               \<in> set (events demo_env rejecting verification_P1 []) \<and>
            GetPublic kp (Inr pk) \<in> set (events demo_env rejecting verification_P1 []) \<and>
            tx_from verification_tx = JStr pk \<and> tx_to verification_tx = JStr pk)"
proof -
  have c: "\<not> is_transfer creation_P1"
    by (simp add: creation_P1_def)
  have c_run:
    "NewTransaction creation_tx (Inr creation_tx) \<in> set (events demo_env rejecting creation_P1 [])"
    "GetKeyPair ''K'' (Inr ''K'') \<in> set (events demo_env rejecting creation_P1 [])"
    "GetPublic ''K'' (Inr ''pub-K'') \<in> set (events demo_env rejecting creation_P1 [])"
    by (simp_all add: run_parts [OF run_rejected_creation])
  have v: "\<not> is_transfer verification_P1"
    by (simp add: verification_P1_def)
  have v_run:
    "NewTransaction verification_tx (Inr verification_tx)
       \<in> set (events demo_env rejecting verification_P1 [])"
    "GetKeyPair ''K'' (Inr ''K'') \<in> set (events demo_env rejecting verification_P1 [])"
    "GetPublic ''K'' (Inr ''pub-K'') \<in> set (events demo_env rejecting verification_P1 [])"
    by (simp_all add: run_parts [OF run_rejected_verification])
  have fields: "tx_from creation_tx = JStr ''pub-K''" "tx_to creation_tx = JStr ''pub-K''"
    "tx_from verification_tx = JStr ''pub-K''" "tx_to verification_tx = JStr ''pub-K''"
    by (simp_all add: creation_tx_def verification_tx_def)
  show ?thesis
    using c_run v_run fields
      creation_and_verification_self_addressed [OF c, of demo_env rejecting "[]"]
      creation_and_verification_self_addressed [OF v, of demo_env rejecting "[]"]
    by blast
qed

text \<open>
  C9. No operation retries: within one call the ledger handler is invoked at most once, and
  when it returns \<open>false\<close> that invocation is the last event of the call, which returns
  \<open>{success: false}\<close>.
\<close>

theorem handler_invoked_at_most_once:
  "length (filter is_handler_call (events env this req w)) \<le> 1 \<and>
   (Handler t (Inr False) \<in> set (events env this req w) \<longrightarrow>
      last (events env this req w) = Handler t (Inr False) \<and>
      outcome env this req w = Inr \<lparr>success = False, transactionHash = None, blockHash = None\<rparr>)"
  using wp_invoke [OF at_most_one_handler_call, of env this req w]
    wp_invoke [OF rejected_run, of env this req w]
  by (auto simp: failure_def)

theorem handler_invoked_at_most_once_witness:
  "length (filter is_handler_call (events demo_env rejecting transfer_P1 [])) \<le> 1 \<and>
   Handler transfer_tx (Inr False) \<in> set (events demo_env rejecting transfer_P1 []) \<and>
   last (events demo_env rejecting transfer_P1 []) = Handler transfer_tx (Inr False) \<and>
   outcome demo_env rejecting transfer_P1 [] =
     Inr \<lparr>success = False, transactionHash = None, blockHash = None\<rparr>"
proof -
  have "Handler transfer_tx (Inr False) \<in> set (events demo_env rejecting transfer_P1 [])"
    by (simp add: run_parts [OF run_rejected_transfer])
  then show ?thesis
    using handler_invoked_at_most_once [of demo_env rejecting transfer_P1 "[]" transfer_tx]
    by blast
qed

text \<open>
  C10. Whatever the call and its outcome, the result of a public operation has no
  \<open>blockHash\<close> field, although the declared result type allows one.
\<close>

theorem result_never_carries_blockHash:
  "\<exists>r. outcome env this req w = Inr r \<and> blockHash r = None"
  using wp_invoke [OF never_throws, of env this req w] by simp

theorem result_never_carries_blockHash_witness:
  "\<exists>r. outcome demo_env accepting creation_P1 [] = Inr r \<and> blockHash r = None"
  using result_never_carries_blockHash [of demo_env accepting creation_P1 "[]"] by simp

end
